theory Spec2Isabelle
  imports Main "HOL-Library.Sublist"
begin

section \<open>The component resource of the Instatus Terraform provider\<close>

text \<open>
  A shallow embedding of \<^verbatim>\<open>instatus/component_resource.go\<close>: the resource model, the
  schema, the four lifecycle operations and the import of a composite identifier.
  The plugin framework and the Instatus client are libraries outside the repository;
  the parts of them the resource calls are modelled here after their documented
  behaviour, and the client itself is a parameter of every operation.
\<close>

subsection \<open>Framework values\<close>

text \<open>
  \<^verbatim>\<open>types.String\<close> and \<^verbatim>\<open>types.Bool\<close> are null, unknown or known. A Go pointer
  \<^verbatim>\<open>*string\<close> or \<^verbatim>\<open>*bool\<close> is an option: \<open>None\<close> is \<^verbatim>\<open>nil\<close>.
\<close>

datatype tf_string = StringNull | StringUnknown | StringValue string

datatype tf_bool = BoolNull | BoolUnknown | BoolValue bool

fun StringPointerValue :: "string option \<Rightarrow> tf_string" where
  "StringPointerValue None = StringNull"
| "StringPointerValue (Some s) = StringValue s"

fun BoolPointerValue :: "bool option \<Rightarrow> tf_bool" where
  "BoolPointerValue None = BoolNull"
| "BoolPointerValue (Some b) = BoolValue b"

text \<open>The value accessors: the zero value stands in for null and unknown.\<close>

fun ValueString :: "tf_string \<Rightarrow> string" where
  "ValueString (StringValue s) = s"
| "ValueString StringNull = []"
| "ValueString StringUnknown = []"

fun ValueStringPointer :: "tf_string \<Rightarrow> string option" where
  "ValueStringPointer StringNull = None"
| "ValueStringPointer StringUnknown = Some []"
| "ValueStringPointer (StringValue s) = Some s"

fun ValueBoolPointer :: "tf_bool \<Rightarrow> bool option" where
  "ValueBoolPointer BoolNull = None"
| "ValueBoolPointer BoolUnknown = Some False"
| "ValueBoolPointer (BoolValue b) = Some b"

subsection \<open>Diagnostics\<close>

text \<open>
  A diagnostic is a severity with a summary and a detail. \<^verbatim>\<open>Append\<close> skips a
  diagnostic the list already contains; \<^verbatim>\<open>AddError\<close> appends one error.
\<close>

datatype diagnostic = ErrorDiagnostic string string | WarningDiagnostic string string

fun is_error :: "diagnostic \<Rightarrow> bool" where
  "is_error (ErrorDiagnostic summary detail) = True"
| "is_error (WarningDiagnostic summary detail) = False"

definition HasError :: "diagnostic list \<Rightarrow> bool" where
  "HasError diags = list_ex is_error diags"

fun Append :: "diagnostic list \<Rightarrow> diagnostic list \<Rightarrow> diagnostic list" where
  "Append diags [] = diags"
| "Append diags (d # ds) = Append (if d \<in> set diags then diags else diags @ [d]) ds"

definition AddError :: "diagnostic list \<Rightarrow> string \<Rightarrow> string \<Rightarrow> diagnostic list" where
  "AddError diags summary detail = Append diags [ErrorDiagnostic summary detail]"

subsection \<open>The data of the client library\<close>

text \<open>
  The request body \<^verbatim>\<open>is.Component\<close> with the fields the resource fills, and the
  component a call returns, with the fields the resource reads (its group is a
  structure of a name and an id) and the grouped flag of the remote component.
  An error is its text, \<^verbatim>\<open>err.Error()\<close>.
\<close>

record Component =
  Name :: "string option"
  Description :: "string option"
  ShowUptime :: "bool option"
  Grouped :: "bool option"
  Group :: "string option"
  GroupId :: "string option"

record Group =
  Name :: "string option"
  Id :: "string option"

record ComponentResponse =
  ID :: "string option"
  Name :: "string option"
  Description :: "string option"
  ShowUptime :: "bool option"
  Grouped :: "bool option"
  Group :: Group

record Client =
  CreateComponent :: "string \<Rightarrow> Component \<Rightarrow> string + ComponentResponse"
  GetComponent :: "string \<Rightarrow> string \<Rightarrow> string + ComponentResponse"
  UpdateComponent :: "string \<Rightarrow> string \<Rightarrow> Component \<Rightarrow> string + ComponentResponse"
  DeleteComponent :: "string \<Rightarrow> string \<Rightarrow> string option"

subsection \<open>The resource model and the schema\<close>

record componentResourceModel =
  ID :: tf_string
  Name :: tf_string
  PageID :: tf_string
  Description :: tf_string
  ShowUptime :: tf_bool
  Grouped :: tf_bool
  GroupName :: tf_string
  GroupId :: tf_string

record StringAttribute =
  Description :: string
  Required :: bool
  Optional :: bool
  Computed :: bool
  UseStateForUnknown :: bool

record BoolAttribute =
  Description :: string
  Required :: bool
  Optional :: bool
  Computed :: bool
  Default :: "bool option"

datatype Attribute = String_Attribute StringAttribute | Bool_Attribute BoolAttribute

record Schema_rec =
  Description :: string
  Attributes :: "(string \<times> Attribute) list"

definition Schema :: Schema_rec where
  "Schema =
    \<lparr> Schema_rec.Description = ''Manages a component.'',
      Attributes =
       [(''id'', String_Attribute
           \<lparr> StringAttribute.Description = ''String Identifier of the component.'',
             Required = False, Optional = False, Computed = True,
             UseStateForUnknown = True \<rparr>),
        (''page_id'', String_Attribute
           \<lparr> StringAttribute.Description = ''String Identifier of the page of the component.'',
             Required = True, Optional = False, Computed = False,
             UseStateForUnknown = False \<rparr>),
        (''name'', String_Attribute
           \<lparr> StringAttribute.Description = ''Name of the component.'',
             Required = True, Optional = False, Computed = False,
             UseStateForUnknown = False \<rparr>),
        (''description'', String_Attribute
           \<lparr> StringAttribute.Description = ''Description of the component.'',
             Required = False, Optional = True, Computed = False,
             UseStateForUnknown = False \<rparr>),
        (''show_uptime'', Bool_Attribute
           \<lparr> BoolAttribute.Description = ''Whether show uptime is enabled in the component.'',
             Required = False, Optional = True, Computed = False,
             Default = None \<rparr>),
        (''grouped'', Bool_Attribute
           \<lparr> BoolAttribute.Description =
               ''Whether the component is in a group (Require group set to desired name when true).'',
             Required = False, Optional = True, Computed = True,
             Default = Some False \<rparr>),
        (''group_name'', String_Attribute
           \<lparr> StringAttribute.Description =
               ''Name of the group for the component (Require grouped set to true).'',
             Required = False, Optional = True, Computed = False,
             UseStateForUnknown = False \<rparr>),
        (''group_id'', String_Attribute
           \<lparr> StringAttribute.Description =
               ''Name of the group for the component (Require grouped set to true).'',
             Required = False, Optional = True, Computed = False,
             UseStateForUnknown = False \<rparr>)] \<rparr>"

text \<open>
  The framework plans a boolean attribute from its configured value: a null
  configuration takes the attribute's default when the schema gives one, and is
  unknown until apply when the attribute is computed without a default.
\<close>

definition PlanBool :: "Schema_rec \<Rightarrow> string \<Rightarrow> tf_bool \<Rightarrow> tf_bool" where
  "PlanBool s name config =
    (case config of
       BoolNull \<Rightarrow>
         (case map_of (Attributes s) name of
            Some (Bool_Attribute a) \<Rightarrow>
              (case Default a of
                 Some b \<Rightarrow> BoolValue b
               | None \<Rightarrow> if BoolAttribute.Computed a then BoolUnknown else BoolNull)
          | Some (String_Attribute a) \<Rightarrow> BoolNull
          | None \<Rightarrow> BoolNull)
     | BoolUnknown \<Rightarrow> BoolUnknown
     | BoolValue b \<Rightarrow> BoolValue b)"

subsection \<open>Requests and responses of the framework\<close>

text \<open>
  The plan or prior state of a request is read with \<^verbatim>\<open>Get\<close>, which returns the
  diagnostics of the decoding together with the decoded model. The state of a
  response is the model last written to it: \<^verbatim>\<open>State.Set\<close> is given a model of the
  shape of the schema, stores it and reports nothing. The operations are modelled
  for a resource that \<^verbatim>\<open>Configure\<close> has given its client.
\<close>

record tfsdk_data =
  GetDiags :: "diagnostic list"
  Raw :: componentResourceModel

definition Get :: "tfsdk_data \<Rightarrow> diagnostic list \<times> componentResourceModel" where
  "Get d = (GetDiags d, Raw d)"

record CreateRequest =
  Plan :: tfsdk_data

record ReadRequest =
  State :: tfsdk_data

record UpdateRequest =
  Plan :: tfsdk_data

record DeleteRequest =
  State :: tfsdk_data

record ImportStateRequest =
  ID :: string

record Response =
  State :: componentResourceModel
  Diagnostics :: "diagnostic list"

datatype path = Root string

text \<open>
  \<^verbatim>\<open>State.SetAttribute\<close> with a string value: it writes a string attribute of the
  schema, and reports an error (its text is not modelled) for any other path.
\<close>

fun SetAttribute ::
  "componentResourceModel \<Rightarrow> path \<Rightarrow> string \<Rightarrow> diagnostic list \<times> componentResourceModel" where
  "SetAttribute st (Root name) v =
    (if name = ''id'' then ([], st\<lparr>componentResourceModel.ID := StringValue v\<rparr>)
     else if name = ''page_id'' then ([], st\<lparr>PageID := StringValue v\<rparr>)
     else if name = ''name'' then ([], st\<lparr>componentResourceModel.Name := StringValue v\<rparr>)
     else if name = ''description'' then
       ([], st\<lparr>componentResourceModel.Description := StringValue v\<rparr>)
     else if name = ''group_name'' then ([], st\<lparr>GroupName := StringValue v\<rparr>)
     else if name = ''group_id'' then ([], st\<lparr>componentResourceModel.GroupId := StringValue v\<rparr>)
     else ([ErrorDiagnostic ''State Write Error'' []], st))"

text \<open>\<^verbatim>\<open>resource.ImportStatePassthroughID\<close>: the import identifier goes to one attribute.\<close>

definition ImportStatePassthroughID ::
  "path \<Rightarrow> ImportStateRequest \<Rightarrow> Response \<Rightarrow> Response" where
  "ImportStatePassthroughID attrPath req resp =
    (let (diags, st) = SetAttribute (Response.State resp) attrPath (ImportStateRequest.ID req)
     in resp\<lparr>Response.State := st, Diagnostics := Append (Diagnostics resp) diags\<rparr>)"

subsection \<open>Splitting a string\<close>

text \<open>
  \<^verbatim>\<open>strings.Split(s, sep)\<close> for a separator of one byte: the substrings between
  the separators, in order; a string without the separator is the only segment.
\<close>

fun split_from :: "string \<Rightarrow> string \<Rightarrow> char \<Rightarrow> string list" where
  "split_from cur [] sep = [cur]"
| "split_from cur (c # cs) sep =
    (if c = sep then cur # split_from [] cs sep else split_from (cur @ [c]) cs sep)"

definition Split :: "string \<Rightarrow> char \<Rightarrow> string list" where
  "Split s sep = split_from [] s sep"

subsection \<open>The operations\<close>

text \<open>The request body of \<^verbatim>\<open>Create\<close>: the group is filled from the group id.\<close>

definition buildCreateRequest :: "componentResourceModel \<Rightarrow> Component" where
  "buildCreateRequest plan =
    \<lparr> Component.Name = ValueStringPointer (componentResourceModel.Name plan),
      Component.Description = ValueStringPointer (componentResourceModel.Description plan),
      Component.ShowUptime = ValueBoolPointer (componentResourceModel.ShowUptime plan),
      Component.Grouped = ValueBoolPointer (componentResourceModel.Grouped plan),
      Component.Group = ValueStringPointer (componentResourceModel.GroupId plan),
      Component.GroupId = ValueStringPointer (componentResourceModel.GroupId plan) \<rparr>"

text \<open>The response of \<^verbatim>\<open>Create\<close> mapped onto the plan.\<close>

definition applyCreateResponse ::
  "componentResourceModel \<Rightarrow> ComponentResponse \<Rightarrow> componentResourceModel" where
  "applyCreateResponse plan component =
    plan\<lparr> componentResourceModel.ID := StringPointerValue (ComponentResponse.ID component),
          componentResourceModel.Description :=
            StringPointerValue (ComponentResponse.Description component),
          GroupName := StringPointerValue (Group.Name (ComponentResponse.Group component)),
          componentResourceModel.GroupId :=
            StringPointerValue (Group.Id (ComponentResponse.Group component)) \<rparr>"

definition Create :: "Client \<Rightarrow> CreateRequest \<Rightarrow> Response \<Rightarrow> Response" where
  "Create client req resp =
    (let (diags, plan) = Get (CreateRequest.Plan req);
         resp = resp\<lparr>Diagnostics := Append (Diagnostics resp) diags\<rparr>
     in if HasError (Diagnostics resp) then resp
        else
          (case CreateComponent client (ValueString (PageID plan)) (buildCreateRequest plan) of
             Inl err \<Rightarrow>
               resp\<lparr>Diagnostics :=
                 AddError (Diagnostics resp) ''Error creating component''
                   (''Could not create component, unexpected error: '' @ err)\<rparr>
           | Inr component \<Rightarrow>
               resp\<lparr>Response.State := applyCreateResponse plan component\<rparr>))"

text \<open>The prior state overwritten with the component \<^verbatim>\<open>Read\<close> fetched.\<close>

definition refreshFromRead ::
  "componentResourceModel \<Rightarrow> ComponentResponse \<Rightarrow> componentResourceModel" where
  "refreshFromRead state component =
    state\<lparr> componentResourceModel.Name := StringPointerValue (ComponentResponse.Name component),
           componentResourceModel.Description :=
             StringPointerValue (ComponentResponse.Description component),
           componentResourceModel.ShowUptime :=
             BoolPointerValue (ComponentResponse.ShowUptime component),
           componentResourceModel.Grouped :=
             BoolValue (Group.Name (ComponentResponse.Group component) \<noteq> None),
           GroupName := StringPointerValue (Group.Name (ComponentResponse.Group component)),
           componentResourceModel.GroupId :=
             StringPointerValue (Group.Id (ComponentResponse.Group component)) \<rparr>"

definition Read :: "Client \<Rightarrow> ReadRequest \<Rightarrow> Response \<Rightarrow> Response" where
  "Read client req resp =
    (let (diags, state) = Get (ReadRequest.State req);
         resp = resp\<lparr>Diagnostics := Append (Diagnostics resp) diags\<rparr>
     in if HasError (Diagnostics resp) then resp
        else
          (case GetComponent client (ValueString (PageID state))
                  (ValueString (componentResourceModel.ID state)) of
             Inl err \<Rightarrow>
               resp\<lparr>Diagnostics :=
                 AddError (Diagnostics resp) ''Error Reading Instatus Component''
                   (''Could not read Instatus component ID ''
                      @ ValueString (componentResourceModel.ID state) @ '': '' @ err)\<rparr>
           | Inr component \<Rightarrow>
               resp\<lparr>Response.State := refreshFromRead state component\<rparr>))"

text \<open>The request body of \<^verbatim>\<open>Update\<close>: the group is filled from the group name.\<close>

definition buildUpdateRequest :: "componentResourceModel \<Rightarrow> Component" where
  "buildUpdateRequest plan =
    \<lparr> Component.Name = ValueStringPointer (componentResourceModel.Name plan),
      Component.Description = ValueStringPointer (componentResourceModel.Description plan),
      Component.ShowUptime = ValueBoolPointer (componentResourceModel.ShowUptime plan),
      Component.Grouped = ValueBoolPointer (componentResourceModel.Grouped plan),
      Component.Group = ValueStringPointer (GroupName plan),
      Component.GroupId = ValueStringPointer (componentResourceModel.GroupId plan) \<rparr>"

definition applyUpdateResponse ::
  "componentResourceModel \<Rightarrow> ComponentResponse \<Rightarrow> componentResourceModel" where
  "applyUpdateResponse plan component =
    plan\<lparr> componentResourceModel.ID := StringPointerValue (ComponentResponse.ID component),
          GroupName := StringPointerValue (Group.Name (ComponentResponse.Group component)),
          componentResourceModel.Description :=
            StringPointerValue (ComponentResponse.Description component),
          componentResourceModel.GroupId :=
            StringPointerValue (Group.Id (ComponentResponse.Group component)) \<rparr>"

definition Update :: "Client \<Rightarrow> UpdateRequest \<Rightarrow> Response \<Rightarrow> Response" where
  "Update client req resp =
    (let (diags, plan) = Get (UpdateRequest.Plan req);
         resp = resp\<lparr>Diagnostics := Append (Diagnostics resp) diags\<rparr>
     in if HasError (Diagnostics resp) then resp
        else
          (case UpdateComponent client (ValueString (PageID plan))
                  (ValueString (componentResourceModel.ID plan)) (buildUpdateRequest plan) of
             Inl err \<Rightarrow>
               resp\<lparr>Diagnostics :=
                 AddError (Diagnostics resp) ''Error Updating Instatus Component''
                   (''Could not update component, unexpected error: '' @ err)\<rparr>
           | Inr component \<Rightarrow>
               resp\<lparr>Response.State := applyUpdateResponse plan component\<rparr>))"

definition Delete :: "Client \<Rightarrow> DeleteRequest \<Rightarrow> Response \<Rightarrow> Response" where
  "Delete client req resp =
    (let (diags, state) = Get (DeleteRequest.State req);
         resp = resp\<lparr>Diagnostics := Append (Diagnostics resp) diags\<rparr>
     in if HasError (Diagnostics resp) then resp
        else
          (case DeleteComponent client (ValueString (PageID state))
                  (ValueString (componentResourceModel.ID state)) of
             Some err \<Rightarrow>
               resp\<lparr>Diagnostics :=
                 AddError (Diagnostics resp) ''Error Deleting Instatus Component''
                   (''Could not delete component, unexpected error: '' @ err)\<rparr>
           | None \<Rightarrow> resp))"

definition ImportState :: "ImportStateRequest \<Rightarrow> Response \<Rightarrow> Response" where
  "ImportState req resp =
    (let idParts = Split (ImportStateRequest.ID req) (CHR ''/'')
     in if length idParts \<noteq> 2 \<or> idParts ! 0 = [] \<or> idParts ! 1 = [] then
          resp\<lparr>Diagnostics :=
            AddError (Diagnostics resp) ''Invalid import identifier''
              (''Import identifier must be in the format 'PageId/id'. Got: ''
                 @ ImportStateRequest.ID req)\<rparr>
        else
          let resp = ImportStatePassthroughID (Root ''id'') req resp;
              (diags, st) = SetAttribute (Response.State resp) (Root ''page_id'') (idParts ! 0);
              resp = resp\<lparr>Response.State := st, Diagnostics := Append (Diagnostics resp) diags\<rparr>;
              (diags, st) = SetAttribute (Response.State resp) (Root ''id'') (idParts ! 1)
          in resp\<lparr>Response.State := st, Diagnostics := Append (Diagnostics resp) diags\<rparr>)"

subsection \<open>Example data\<close>

text \<open>The state of a resource that does not exist yet: every attribute is null.\<close>

definition emptyState :: componentResourceModel where
  "emptyState =
    \<lparr> componentResourceModel.ID = StringNull, Name = StringNull, PageID = StringNull,
      Description = StringNull, ShowUptime = BoolNull, Grouped = BoolNull,
      GroupName = StringNull, GroupId = StringNull \<rparr>"

text \<open>A client whose every call fails with the same error text.\<close>

definition failingClient :: "string \<Rightarrow> Client" where
  "failingClient err =
    \<lparr> CreateComponent = (\<lambda>pageId item. Inl err),
      GetComponent = (\<lambda>pageId componentId. Inl err),
      UpdateComponent = (\<lambda>pageId componentId item. Inl err),
      DeleteComponent = (\<lambda>pageId componentId. Some err) \<rparr>"

text \<open>A client whose every call succeeds and returns the same component.\<close>

definition fixedClient :: "ComponentResponse \<Rightarrow> Client" where
  "fixedClient component =
    \<lparr> CreateComponent = (\<lambda>pageId item. Inr component),
      GetComponent = (\<lambda>pageId componentId. Inr component),
      UpdateComponent = (\<lambda>pageId componentId item. Inr component),
      DeleteComponent = (\<lambda>pageId componentId. None) \<rparr>"

section \<open>Properties\<close>

subsection \<open>Splitting and diagnostics\<close>

lemma split_from_nonempty: "split_from cur s sep \<noteq> []"
  by (induction s arbitrary: cur) auto

lemma split_from_single_iff:
  "split_from cur s sep = [x] \<longleftrightarrow> sep \<notin> set s \<and> x = cur @ s"
  by (induction s arbitrary: cur) (auto simp: split_from_nonempty)

lemma split_from_pair_iff:
  "split_from cur s sep = [a, b] \<longleftrightarrow>
     (\<exists>p. s = p @ sep # b \<and> sep \<notin> set p \<and> sep \<notin> set b \<and> a = cur @ p)"
proof (induction s arbitrary: cur)
  case Nil
  then show ?case by simp
next
  case (Cons c cs)
  show ?case
  proof (cases "c = sep")
    case True
    then show ?thesis
      by (auto simp: split_from_single_iff Cons_eq_append_conv)
  next
    case False
    then show ?thesis
      by (auto simp: Cons.IH Cons_eq_append_conv)
  qed
qed

lemma Split_pair_iff:
  "Split s sep = [a, b] \<longleftrightarrow> s = a @ sep # b \<and> sep \<notin> set a \<and> sep \<notin> set b"
  by (auto simp: Split_def split_from_pair_iff)

lemma set_Append: "set (Append diags ds) = set diags \<union> set ds"
  by (induction ds arbitrary: diags) auto

lemma AddError_member: "ErrorDiagnostic summary detail \<in> set (AddError diags summary detail)"
  by (simp add: AddError_def set_Append)

lemma HasError_AddError: "HasError (AddError diags summary detail)"
  unfolding HasError_def list_ex_iff using AddError_member [of summary detail diags]
  by (metis is_error.simps(1))

subsection \<open>The outcome of each operation\<close>

lemma ImportState_accept:
  assumes "Split raw (CHR ''/'') = [P, I]" and "P \<noteq> []" and "I \<noteq> []"
  shows "ImportState \<lparr>ImportStateRequest.ID = raw\<rparr> resp =
           resp\<lparr>Response.State := (Response.State resp)
             \<lparr>componentResourceModel.ID := StringValue I, PageID := StringValue P\<rparr>\<rparr>"
  using assms by (simp add: ImportState_def ImportStatePassthroughID_def Let_def)

lemma ImportState_reject:
  assumes "length (Split raw (CHR ''/'')) \<noteq> 2 \<or> Split raw (CHR ''/'') ! 0 = []
             \<or> Split raw (CHR ''/'') ! 1 = []"
  shows "ImportState \<lparr>ImportStateRequest.ID = raw\<rparr> resp =
           resp\<lparr>Diagnostics := AddError (Diagnostics resp) ''Invalid import identifier''
             (''Import identifier must be in the format 'PageId/id'. Got: '' @ raw)\<rparr>"
  using assms by (auto simp add: ImportState_def Let_def)

lemma Create_success:
  assumes "\<not> HasError (Append (Diagnostics resp) (GetDiags (CreateRequest.Plan req)))"
    and "CreateComponent client (ValueString (PageID (Raw (CreateRequest.Plan req))))
           (buildCreateRequest (Raw (CreateRequest.Plan req))) = Inr component"
  shows "Create client req resp =
           resp\<lparr>Diagnostics := Append (Diagnostics resp) (GetDiags (CreateRequest.Plan req)),
                Response.State := applyCreateResponse (Raw (CreateRequest.Plan req)) component\<rparr>"
  using assms by (simp add: Create_def Get_def Let_def)

lemma Create_failure:
  assumes "\<not> HasError (Append (Diagnostics resp) (GetDiags (CreateRequest.Plan req)))"
    and "CreateComponent client (ValueString (PageID (Raw (CreateRequest.Plan req))))
           (buildCreateRequest (Raw (CreateRequest.Plan req))) = Inl err"
  shows "Create client req resp =
           resp\<lparr>Diagnostics :=
             AddError (Append (Diagnostics resp) (GetDiags (CreateRequest.Plan req)))
               ''Error creating component''
               (''Could not create component, unexpected error: '' @ err)\<rparr>"
  using assms by (simp add: Create_def Get_def Let_def)

lemma Read_success:
  assumes "\<not> HasError (Append (Diagnostics resp) (GetDiags (ReadRequest.State req)))"
    and "GetComponent client (ValueString (PageID (Raw (ReadRequest.State req))))
           (ValueString (componentResourceModel.ID (Raw (ReadRequest.State req)))) = Inr component"
  shows "Read client req resp =
           resp\<lparr>Diagnostics := Append (Diagnostics resp) (GetDiags (ReadRequest.State req)),
                Response.State := refreshFromRead (Raw (ReadRequest.State req)) component\<rparr>"
  using assms by (simp add: Read_def Get_def Let_def)

lemma Read_failure:
  assumes "\<not> HasError (Append (Diagnostics resp) (GetDiags (ReadRequest.State req)))"
    and "GetComponent client (ValueString (PageID (Raw (ReadRequest.State req))))
           (ValueString (componentResourceModel.ID (Raw (ReadRequest.State req)))) = Inl err"
  shows "Read client req resp =
           resp\<lparr>Diagnostics :=
             AddError (Append (Diagnostics resp) (GetDiags (ReadRequest.State req)))
               ''Error Reading Instatus Component''
               (''Could not read Instatus component ID ''
                  @ ValueString (componentResourceModel.ID (Raw (ReadRequest.State req)))
                  @ '': '' @ err)\<rparr>"
  using assms by (simp add: Read_def Get_def Let_def)

lemma Update_success:
  assumes "\<not> HasError (Append (Diagnostics resp) (GetDiags (UpdateRequest.Plan req)))"
    and "UpdateComponent client (ValueString (PageID (Raw (UpdateRequest.Plan req))))
           (ValueString (componentResourceModel.ID (Raw (UpdateRequest.Plan req))))
           (buildUpdateRequest (Raw (UpdateRequest.Plan req))) = Inr component"
  shows "Update client req resp =
           resp\<lparr>Diagnostics := Append (Diagnostics resp) (GetDiags (UpdateRequest.Plan req)),
                Response.State := applyUpdateResponse (Raw (UpdateRequest.Plan req)) component\<rparr>"
  using assms by (simp add: Update_def Get_def Let_def)

lemma Update_failure:
  assumes "\<not> HasError (Append (Diagnostics resp) (GetDiags (UpdateRequest.Plan req)))"
    and "UpdateComponent client (ValueString (PageID (Raw (UpdateRequest.Plan req))))
           (ValueString (componentResourceModel.ID (Raw (UpdateRequest.Plan req))))
           (buildUpdateRequest (Raw (UpdateRequest.Plan req))) = Inl err"
  shows "Update client req resp =
           resp\<lparr>Diagnostics :=
             AddError (Append (Diagnostics resp) (GetDiags (UpdateRequest.Plan req)))
               ''Error Updating Instatus Component''
               (''Could not update component, unexpected error: '' @ err)\<rparr>"
  using assms by (simp add: Update_def Get_def Let_def)

lemma Delete_failure:
  assumes "\<not> HasError (Append (Diagnostics resp) (GetDiags (DeleteRequest.State req)))"
    and "DeleteComponent client (ValueString (PageID (Raw (DeleteRequest.State req))))
           (ValueString (componentResourceModel.ID (Raw (DeleteRequest.State req)))) = Some err"
  shows "Delete client req resp =
           resp\<lparr>Diagnostics :=
             AddError (Append (Diagnostics resp) (GetDiags (DeleteRequest.State req)))
               ''Error Deleting Instatus Component''
               (''Could not delete component, unexpected error: '' @ err)\<rparr>"
  using assms by (simp add: Delete_def Get_def Let_def)


subsection \<open>Import\<close>

text \<open>
  Claim C1. An import identifier that splits on the slash into exactly two non-empty
  segments is imported without a diagnostic: the first segment is written to the
  \<^verbatim>\<open>page_id\<close> attribute of the state and the second to its \<^verbatim>\<open>id\<close> attribute.
\<close>

theorem ImportState_two_segments:
  assumes "Split raw (CHR ''/'') = [P, I]" and "P \<noteq> []" and "I \<noteq> []"
  shows "ImportState \<lparr>ImportStateRequest.ID = raw\<rparr> resp =
           resp\<lparr>Response.State := (Response.State resp)
             \<lparr>componentResourceModel.ID := StringValue I, PageID := StringValue P\<rparr>\<rparr>
         \<and> Diagnostics (ImportState \<lparr>ImportStateRequest.ID = raw\<rparr> resp) = Diagnostics resp
         \<and> PageID (Response.State (ImportState \<lparr>ImportStateRequest.ID = raw\<rparr> resp))
             = StringValue P
         \<and> componentResourceModel.ID
               (Response.State (ImportState \<lparr>ImportStateRequest.ID = raw\<rparr> resp))
             = StringValue I"
  by (simp add: ImportState_accept [OF assms])

theorem ImportState_two_segments_witness:
  "Split ''pg_1/cmp_42'' (CHR ''/'') = [''pg_1'', ''cmp_42'']
   \<and> ''pg_1'' \<noteq> [] \<and> ''cmp_42'' \<noteq> []
   \<and> Diagnostics (ImportState \<lparr>ImportStateRequest.ID = ''pg_1/cmp_42''\<rparr>
        \<lparr>Response.State = emptyState, Diagnostics = []\<rparr>) = []
   \<and> PageID (Response.State (ImportState \<lparr>ImportStateRequest.ID = ''pg_1/cmp_42''\<rparr>
        \<lparr>Response.State = emptyState, Diagnostics = []\<rparr>)) = StringValue ''pg_1''
   \<and> componentResourceModel.ID
        (Response.State (ImportState \<lparr>ImportStateRequest.ID = ''pg_1/cmp_42''\<rparr>
          \<lparr>Response.State = emptyState, Diagnostics = []\<rparr>)) = StringValue ''cmp_42''"
proof -
  have parts: "Split ''pg_1/cmp_42'' (CHR ''/'') = [''pg_1'', ''cmp_42'']"
    by (simp add: Split_def)
  have p: "''pg_1'' \<noteq> []" and i: "''cmp_42'' \<noteq> []"
    by simp_all
  from ImportState_two_segments [OF parts p i,
      of "\<lparr>Response.State = emptyState, Diagnostics = []\<rparr>"] parts
  show ?thesis by simp
qed

text \<open>
  Claim C2. When the split gives a number of segments other than two, or one of the
  two segments is empty, the import reports the error diagnostic
  \<^verbatim>\<open>Invalid import identifier\<close>, whose detail ends with the identifier as it was
  given, and the state is left as it was.
\<close>

theorem ImportState_malformed:
  assumes "length (Split raw (CHR ''/'')) \<noteq> 2 \<or> Split raw (CHR ''/'') ! 0 = []
             \<or> Split raw (CHR ''/'') ! 1 = []"
  shows "Diagnostics (ImportState \<lparr>ImportStateRequest.ID = raw\<rparr> resp) =
           AddError (Diagnostics resp) ''Invalid import identifier''
             (''Import identifier must be in the format 'PageId/id'. Got: '' @ raw)
         \<and> ErrorDiagnostic ''Invalid import identifier''
             (''Import identifier must be in the format 'PageId/id'. Got: '' @ raw)
             \<in> set (Diagnostics (ImportState \<lparr>ImportStateRequest.ID = raw\<rparr> resp))
         \<and> suffix raw (''Import identifier must be in the format 'PageId/id'. Got: '' @ raw)
         \<and> HasError (Diagnostics (ImportState \<lparr>ImportStateRequest.ID = raw\<rparr> resp))
         \<and> Response.State (ImportState \<lparr>ImportStateRequest.ID = raw\<rparr> resp)
             = Response.State resp"
proof -
  let ?detail = "''Import identifier must be in the format 'PageId/id'. Got: '' @ raw"
  have run: "ImportState \<lparr>ImportStateRequest.ID = raw\<rparr> resp =
      resp\<lparr>Diagnostics := AddError (Diagnostics resp) ''Invalid import identifier'' ?detail\<rparr>"
    by (rule ImportState_reject [OF assms])
  have surfaced: "ErrorDiagnostic ''Invalid import identifier'' ?detail
      \<in> set (AddError (Diagnostics resp) ''Invalid import identifier'' ?detail)"
    by (rule AddError_member)
  have echoed: "suffix raw ?detail"
    by (rule suffixI [OF refl])
  have failed: "HasError (AddError (Diagnostics resp) ''Invalid import identifier'' ?detail)"
    by (rule HasError_AddError)
  show ?thesis
    unfolding run using surfaced echoed failed by simp
qed

theorem ImportState_malformed_witness:
  "length (Split ''cmp_42'' (CHR ''/'')) \<noteq> 2
   \<and> Diagnostics (ImportState \<lparr>ImportStateRequest.ID = ''cmp_42''\<rparr>
        \<lparr>Response.State = emptyState, Diagnostics = []\<rparr>)
       = [ErrorDiagnostic ''Invalid import identifier''
            ''Import identifier must be in the format 'PageId/id'. Got: cmp_42'']
   \<and> Response.State (ImportState \<lparr>ImportStateRequest.ID = ''cmp_42''\<rparr>
        \<lparr>Response.State = emptyState, Diagnostics = []\<rparr>) = emptyState"
proof -
  have bad: "length (Split ''cmp_42'' (CHR ''/'')) \<noteq> 2"
    by (simp add: Split_def)
  then have "length (Split ''cmp_42'' (CHR ''/'')) \<noteq> 2 \<or> Split ''cmp_42'' (CHR ''/'') ! 0 = []
             \<or> Split ''cmp_42'' (CHR ''/'') ! 1 = []"
    by simp
  from ImportState_malformed [OF this, of "\<lparr>Response.State = emptyState, Diagnostics = []\<rparr>"] bad
  show ?thesis by (simp add: AddError_def)
qed

text \<open>
  Claim C10. For an identifier the import accepts, the passthrough first writes the
  whole identifier to \<^verbatim>\<open>id\<close>; the final \<^verbatim>\<open>id\<close> is the second segment, which is
  not the whole identifier, and \<^verbatim>\<open>page_id\<close>, a slash and \<^verbatim>\<open>id\<close> put together
  give the identifier back.
\<close>

theorem ImportState_reconstructs:
  assumes "length (Split raw (CHR ''/'')) = 2"
    and "Split raw (CHR ''/'') ! 0 \<noteq> []" and "Split raw (CHR ''/'') ! 1 \<noteq> []"
  shows "componentResourceModel.ID
           (Response.State (ImportStatePassthroughID (Root ''id'')
              \<lparr>ImportStateRequest.ID = raw\<rparr> resp)) = StringValue raw
         \<and> componentResourceModel.ID
             (Response.State (ImportState \<lparr>ImportStateRequest.ID = raw\<rparr> resp))
             = StringValue (Split raw (CHR ''/'') ! 1)
         \<and> componentResourceModel.ID
             (Response.State (ImportState \<lparr>ImportStateRequest.ID = raw\<rparr> resp))
             \<noteq> StringValue raw
         \<and> ValueString (PageID
               (Response.State (ImportState \<lparr>ImportStateRequest.ID = raw\<rparr> resp)))
             @ ''/''
             @ ValueString (componentResourceModel.ID
                 (Response.State (ImportState \<lparr>ImportStateRequest.ID = raw\<rparr> resp)))
             = raw"
proof -
  from assms(1) obtain P I where parts: "Split raw (CHR ''/'') = [P, I]"
    by (auto simp: length_Suc_conv numeral_2_eq_2)
  with assms have ne: "P \<noteq> []" "I \<noteq> []"
    by simp_all
  have run: "ImportState \<lparr>ImportStateRequest.ID = raw\<rparr> resp =
      resp\<lparr>Response.State := (Response.State resp)
        \<lparr>componentResourceModel.ID := StringValue I, PageID := StringValue P\<rparr>\<rparr>"
    by (rule ImportState_accept [OF parts ne])
  from parts have raw: "raw = P @ CHR ''/'' # I"
    by (simp add: Split_pair_iff)
  then have "length I < length raw"
    by simp
  then have differs: "I \<noteq> raw"
    by auto
  have passthrough: "componentResourceModel.ID
      (Response.State (ImportStatePassthroughID (Root ''id'')
         \<lparr>ImportStateRequest.ID = raw\<rparr> resp)) = StringValue raw"
    by (simp add: ImportStatePassthroughID_def)
  have second: "componentResourceModel.ID
      (Response.State (ImportState \<lparr>ImportStateRequest.ID = raw\<rparr> resp))
      = StringValue (Split raw (CHR ''/'') ! 1)"
    unfolding run by (simp add: parts)
  have overwritten: "componentResourceModel.ID
      (Response.State (ImportState \<lparr>ImportStateRequest.ID = raw\<rparr> resp))
      \<noteq> StringValue raw"
    unfolding run using differs by simp
  have joined: "ValueString (PageID
        (Response.State (ImportState \<lparr>ImportStateRequest.ID = raw\<rparr> resp)))
      @ ''/''
      @ ValueString (componentResourceModel.ID
          (Response.State (ImportState \<lparr>ImportStateRequest.ID = raw\<rparr> resp)))
      = raw"
    unfolding run using raw by simp
  from passthrough second overwritten joined show ?thesis
    by blast
qed

theorem ImportState_reconstructs_witness:
  "length (Split ''pg_1/cmp_42'' (CHR ''/'')) = 2
   \<and> Split ''pg_1/cmp_42'' (CHR ''/'') ! 0 \<noteq> []
   \<and> Split ''pg_1/cmp_42'' (CHR ''/'') ! 1 \<noteq> []
   \<and> componentResourceModel.ID
       (Response.State (ImportState \<lparr>ImportStateRequest.ID = ''pg_1/cmp_42''\<rparr>
          \<lparr>Response.State = emptyState, Diagnostics = []\<rparr>)) = StringValue ''cmp_42''
   \<and> ValueString (PageID
         (Response.State (ImportState \<lparr>ImportStateRequest.ID = ''pg_1/cmp_42''\<rparr>
            \<lparr>Response.State = emptyState, Diagnostics = []\<rparr>)))
       @ ''/''
       @ ValueString (componentResourceModel.ID
           (Response.State (ImportState \<lparr>ImportStateRequest.ID = ''pg_1/cmp_42''\<rparr>
              \<lparr>Response.State = emptyState, Diagnostics = []\<rparr>)))
       = ''pg_1/cmp_42''"
proof -
  have parts: "Split ''pg_1/cmp_42'' (CHR ''/'') = [''pg_1'', ''cmp_42'']"
    by (simp add: Split_def)
  have n: "length (Split ''pg_1/cmp_42'' (CHR ''/'')) = 2"
    and p: "Split ''pg_1/cmp_42'' (CHR ''/'') ! 0 \<noteq> []"
    and i: "Split ''pg_1/cmp_42'' (CHR ''/'') ! 1 \<noteq> []"
    and snd: "Split ''pg_1/cmp_42'' (CHR ''/'') ! 1 = ''cmp_42''"
    by (simp_all add: parts)
  note run = ImportState_reconstructs [OF n p i,
      of "\<lparr>Response.State = emptyState, Diagnostics = []\<rparr>", unfolded snd]
  from run n p i show ?thesis
    by blast
qed

subsection \<open>Request bodies\<close>

text \<open>
  Claim C3. Whatever the client computes from the \<^verbatim>\<open>Group\<close> and \<^verbatim>\<open>GroupId\<close>
  fields of the request it is handed, create hands it a request with both fields
  taken from the group id of the plan, and update one whose \<^verbatim>\<open>Group\<close> is taken from
  the group name of the plan and whose \<^verbatim>\<open>GroupId\<close> from the group id: a null
  attribute is sent as \<^verbatim>\<open>nil\<close>, an unknown one as the empty string, a known one as
  its value. The client here answers with an error whose text is computed from the
  two fields, so that the diagnostic of the operation shows what was sent.
\<close>

theorem operations_send_group:
  assumes "\<not> HasError (Append (Diagnostics resp) (GetDiags (CreateRequest.Plan creq)))"
    and "\<not> HasError (Append (Diagnostics resp) (GetDiags (UpdateRequest.Plan ureq)))"
  shows "Create (client\<lparr>CreateComponent :=
             \<lambda>pageId item. Inl (observe (Component.Group item) (Component.GroupId item))\<rparr>)
           creq resp
         = resp\<lparr>Diagnostics :=
             AddError (Append (Diagnostics resp) (GetDiags (CreateRequest.Plan creq)))
               ''Error creating component''
               (''Could not create component, unexpected error: ''
                  @ observe
                      (case componentResourceModel.GroupId (Raw (CreateRequest.Plan creq)) of
                         StringNull \<Rightarrow> None | StringUnknown \<Rightarrow> Some []
                       | StringValue groupId \<Rightarrow> Some groupId)
                      (case componentResourceModel.GroupId (Raw (CreateRequest.Plan creq)) of
                         StringNull \<Rightarrow> None | StringUnknown \<Rightarrow> Some []
                       | StringValue groupId \<Rightarrow> Some groupId))\<rparr>
         \<and> Update (client\<lparr>UpdateComponent :=
             \<lambda>pageId componentId item.
               Inl (observe (Component.Group item) (Component.GroupId item))\<rparr>)
           ureq resp
         = resp\<lparr>Diagnostics :=
             AddError (Append (Diagnostics resp) (GetDiags (UpdateRequest.Plan ureq)))
               ''Error Updating Instatus Component''
               (''Could not update component, unexpected error: ''
                  @ observe
                      (case GroupName (Raw (UpdateRequest.Plan ureq)) of
                         StringNull \<Rightarrow> None | StringUnknown \<Rightarrow> Some []
                       | StringValue groupName \<Rightarrow> Some groupName)
                      (case componentResourceModel.GroupId (Raw (UpdateRequest.Plan ureq)) of
                         StringNull \<Rightarrow> None | StringUnknown \<Rightarrow> Some []
                       | StringValue groupId \<Rightarrow> Some groupId))\<rparr>"
proof -
  have pointer: "ValueStringPointer t =
      (case t of StringNull \<Rightarrow> None | StringUnknown \<Rightarrow> Some [] | StringValue s \<Rightarrow> Some s)" for t
    by (cases t) simp_all
  let ?creating = "client\<lparr>CreateComponent :=
      \<lambda>pageId item. Inl (observe (Component.Group item) (Component.GroupId item))\<rparr>"
  let ?updating = "client\<lparr>UpdateComponent :=
      \<lambda>pageId componentId item. Inl (observe (Component.Group item) (Component.GroupId item))\<rparr>"
  have sent: "CreateComponent ?creating
      (ValueString (PageID (Raw (CreateRequest.Plan creq))))
      (buildCreateRequest (Raw (CreateRequest.Plan creq)))
      = Inl (observe
          (ValueStringPointer (componentResourceModel.GroupId (Raw (CreateRequest.Plan creq))))
          (ValueStringPointer (componentResourceModel.GroupId (Raw (CreateRequest.Plan creq)))))"
    by (simp add: buildCreateRequest_def)
  have resent: "UpdateComponent ?updating
      (ValueString (PageID (Raw (UpdateRequest.Plan ureq))))
      (ValueString (componentResourceModel.ID (Raw (UpdateRequest.Plan ureq))))
      (buildUpdateRequest (Raw (UpdateRequest.Plan ureq)))
      = Inl (observe
          (ValueStringPointer (GroupName (Raw (UpdateRequest.Plan ureq))))
          (ValueStringPointer (componentResourceModel.GroupId (Raw (UpdateRequest.Plan ureq)))))"
    by (simp add: buildUpdateRequest_def)
  show ?thesis
    unfolding Create_failure [OF assms(1) sent] Update_failure [OF assms(2) resent] pointer
    by (rule conjI) (rule refl)+
qed

theorem operations_send_group_witness:
  "Diagnostics
     (Create ((failingClient ''down'')\<lparr>CreateComponent :=
          \<lambda>pageId item. Inl
            ((case Component.Group item of None \<Rightarrow> ''nil'' | Some g \<Rightarrow> g) @ '',''
               @ (case Component.GroupId item of None \<Rightarrow> ''nil'' | Some g \<Rightarrow> g))\<rparr>)
        \<lparr>CreateRequest.Plan = \<lparr>GetDiags = [],
           Raw = emptyState\<lparr>componentResourceModel.Name := StringValue ''API'',
                   PageID := StringValue ''pg_1'',
                   componentResourceModel.Grouped := BoolValue True,
                   GroupName := StringValue ''Backend'',
                   componentResourceModel.GroupId := StringValue ''grp_9''\<rparr>\<rparr>\<rparr>
        \<lparr>Response.State = emptyState, Diagnostics = []\<rparr>)
     = [ErrorDiagnostic ''Error creating component''
          ''Could not create component, unexpected error: grp_9,grp_9'']
   \<and> Diagnostics
     (Update ((failingClient ''down'')\<lparr>UpdateComponent :=
          \<lambda>pageId componentId item. Inl
            ((case Component.Group item of None \<Rightarrow> ''nil'' | Some g \<Rightarrow> g) @ '',''
               @ (case Component.GroupId item of None \<Rightarrow> ''nil'' | Some g \<Rightarrow> g))\<rparr>)
        \<lparr>UpdateRequest.Plan = \<lparr>GetDiags = [],
           Raw = emptyState\<lparr>componentResourceModel.Name := StringValue ''API'',
                   PageID := StringValue ''pg_1'',
                   componentResourceModel.Grouped := BoolValue True,
                   GroupName := StringValue ''Backend'',
                   componentResourceModel.GroupId := StringValue ''grp_9''\<rparr>\<rparr>\<rparr>
        \<lparr>Response.State = emptyState, Diagnostics = []\<rparr>)
     = [ErrorDiagnostic ''Error Updating Instatus Component''
          ''Could not update component, unexpected error: Backend,grp_9'']"
proof -
  let ?plan = "emptyState\<lparr>componentResourceModel.Name := StringValue ''API'',
      PageID := StringValue ''pg_1'', componentResourceModel.Grouped := BoolValue True,
      GroupName := StringValue ''Backend'',
      componentResourceModel.GroupId := StringValue ''grp_9''\<rparr>"
  let ?creq = "\<lparr>CreateRequest.Plan = \<lparr>GetDiags = [], Raw = ?plan\<rparr>\<rparr>"
  let ?ureq = "\<lparr>UpdateRequest.Plan = \<lparr>GetDiags = [], Raw = ?plan\<rparr>\<rparr>"
  let ?resp = "\<lparr>Response.State = emptyState, Diagnostics = []\<rparr>"
  have c: "\<not> HasError (Append (Diagnostics ?resp) (GetDiags (CreateRequest.Plan ?creq)))"
    and u: "\<not> HasError (Append (Diagnostics ?resp) (GetDiags (UpdateRequest.Plan ?ureq)))"
    by (simp_all add: HasError_def)
  from operations_send_group [OF c u, where client = "failingClient ''down''"
      and observe = "\<lambda>g gid. (case g of None \<Rightarrow> ''nil'' | Some s \<Rightarrow> s) @ '',''
         @ (case gid of None \<Rightarrow> ''nil'' | Some s \<Rightarrow> s)"]
  show ?thesis
    by (simp add: AddError_def)
qed

subsection \<open>Responses mapped onto the model\<close>

text \<open>
  Claim C4. When the read reaches the client and the client returns a component, the
  \<^verbatim>\<open>grouped\<close> attribute written to the state is true exactly when the group name of
  the component is present, and false exactly when it is absent; the grouped flag the
  component carries has no influence on the refreshed state.
\<close>

theorem Read_grouped_from_group_name:
  assumes "\<not> HasError (Append (Diagnostics resp) (GetDiags (ReadRequest.State req)))"
    and "GetComponent client (ValueString (PageID (Raw (ReadRequest.State req))))
           (ValueString (componentResourceModel.ID (Raw (ReadRequest.State req)))) = Inr component"
  shows "(componentResourceModel.Grouped (Response.State (Read client req resp)) = BoolValue True)
           = (Group.Name (ComponentResponse.Group component) \<noteq> None)
         \<and> (componentResourceModel.Grouped (Response.State (Read client req resp)) = BoolValue False)
           = (Group.Name (ComponentResponse.Group component) = None)
         \<and> refreshFromRead (Raw (ReadRequest.State req))
              (component\<lparr>ComponentResponse.Grouped := flag\<rparr>)
           = refreshFromRead (Raw (ReadRequest.State req)) component"
  by (simp add: Read_success [OF assms] refreshFromRead_def)

theorem Read_grouped_from_group_name_witness:
  "\<not> HasError (Append [] [])
   \<and> componentResourceModel.Grouped (Response.State
        (Read (fixedClient
                \<lparr>ComponentResponse.ID = Some ''cmp_42'', Name = Some ''API'', Description = None,
                  ShowUptime = Some True, Grouped = Some False,
                  Group = \<lparr>Group.Name = Some ''Backend'', Id = Some ''grp_9''\<rparr>\<rparr>)
           \<lparr>ReadRequest.State = \<lparr>GetDiags = [], Raw = emptyState\<rparr>\<rparr>
           \<lparr>Response.State = emptyState, Diagnostics = []\<rparr>)) = BoolValue True"
proof -
  let ?component = "\<lparr>ComponentResponse.ID = Some ''cmp_42'', Name = Some ''API'',
      Description = None, ShowUptime = Some True, Grouped = Some False,
      Group = \<lparr>Group.Name = Some ''Backend'', Id = Some ''grp_9''\<rparr>\<rparr>"
  let ?req = "\<lparr>ReadRequest.State = \<lparr>GetDiags = [], Raw = emptyState\<rparr>\<rparr>"
  let ?resp = "\<lparr>Response.State = emptyState, Diagnostics = []\<rparr>"
  have quiet: "\<not> HasError (Append (Diagnostics ?resp) (GetDiags (ReadRequest.State ?req)))"
    by (simp add: HasError_def)
  have fetched: "GetComponent (fixedClient ?component)
      (ValueString (PageID (Raw (ReadRequest.State ?req))))
      (ValueString (componentResourceModel.ID (Raw (ReadRequest.State ?req)))) = Inr ?component"
    by (simp add: fixedClient_def)
  from Read_grouped_from_group_name [OF quiet fetched] show ?thesis
    by (simp add: HasError_def)
qed

text \<open>
  Claim C5. The refresh of read keeps \<^verbatim>\<open>page_id\<close> and \<^verbatim>\<open>id\<close> of the prior state.
  The response mappings of create and update keep \<^verbatim>\<open>name\<close>, \<^verbatim>\<open>show_uptime\<close>,
  \<^verbatim>\<open>grouped\<close> and \<^verbatim>\<open>page_id\<close> of the plan: of the eight attributes they write
  only \<^verbatim>\<open>id\<close>, \<^verbatim>\<open>description\<close>, \<^verbatim>\<open>group_name\<close> and \<^verbatim>\<open>group_id\<close>.
\<close>

theorem response_mappings_frame:
  "PageID (refreshFromRead state component) = PageID state
   \<and> componentResourceModel.ID (refreshFromRead state component) = componentResourceModel.ID state
   \<and> componentResourceModel.Name (applyCreateResponse plan component)
       = componentResourceModel.Name plan
   \<and> componentResourceModel.ShowUptime (applyCreateResponse plan component)
       = componentResourceModel.ShowUptime plan
   \<and> componentResourceModel.Grouped (applyCreateResponse plan component)
       = componentResourceModel.Grouped plan
   \<and> PageID (applyCreateResponse plan component) = PageID plan
   \<and> componentResourceModel.Name (applyUpdateResponse plan component)
       = componentResourceModel.Name plan
   \<and> componentResourceModel.ShowUptime (applyUpdateResponse plan component)
       = componentResourceModel.ShowUptime plan
   \<and> componentResourceModel.Grouped (applyUpdateResponse plan component)
       = componentResourceModel.Grouped plan
   \<and> PageID (applyUpdateResponse plan component) = PageID plan"
  by (simp add: refreshFromRead_def applyCreateResponse_def applyUpdateResponse_def)

text \<open>
  Claim C6 says that after an accepted create response the \<^verbatim>\<open>id\<close> of the model is
  never null. The response mapping copies the id with \<^verbatim>\<open>StringPointerValue\<close> and
  checks nothing: a response without an id is accepted, no diagnostic is reported and
  the \<^verbatim>\<open>id\<close> written to the state is null.
\<close>

theorem Create_id_absent_counterexample:
  "componentResourceModel.ID (Response.State
     (Create (fixedClient
               \<lparr>ComponentResponse.ID = None, Name = Some ''API'', Description = None,
                 ShowUptime = None, Grouped = None,
                 Group = \<lparr>Group.Name = None, Id = None\<rparr>\<rparr>)
        \<lparr>CreateRequest.Plan = \<lparr>GetDiags = [],
           Raw = emptyState\<lparr>componentResourceModel.Name := StringValue ''API'',
                             PageID := StringValue ''pg_1''\<rparr>\<rparr>\<rparr>
        \<lparr>Response.State = emptyState, Diagnostics = []\<rparr>)) = StringNull
   \<and> Diagnostics
     (Create (fixedClient
               \<lparr>ComponentResponse.ID = None, Name = Some ''API'', Description = None,
                 ShowUptime = None, Grouped = None,
                 Group = \<lparr>Group.Name = None, Id = None\<rparr>\<rparr>)
        \<lparr>CreateRequest.Plan = \<lparr>GetDiags = [],
           Raw = emptyState\<lparr>componentResourceModel.Name := StringValue ''API'',
                             PageID := StringValue ''pg_1''\<rparr>\<rparr>\<rparr>
        \<lparr>Response.State = emptyState, Diagnostics = []\<rparr>) = []"
  by (simp add: Create_def Get_def HasError_def fixedClient_def applyCreateResponse_def
      emptyState_def)

text \<open>
  Claim C6, amended. When create reaches the client and the client returns a
  component, no error is reported, and each of \<^verbatim>\<open>id\<close>, \<^verbatim>\<open>description\<close>,
  \<^verbatim>\<open>group_name\<close> and \<^verbatim>\<open>group_id\<close> in the state is null exactly when the response
  omits the field it is copied from. So the \<^verbatim>\<open>id\<close> is populated exactly when the
  response carries one.
\<close>

theorem Create_response_fields:
  assumes "\<not> HasError (Append (Diagnostics resp) (GetDiags (CreateRequest.Plan req)))"
    and "CreateComponent client (ValueString (PageID (Raw (CreateRequest.Plan req))))
           (buildCreateRequest (Raw (CreateRequest.Plan req))) = Inr component"
  shows "\<not> HasError (Diagnostics (Create client req resp))
         \<and> (componentResourceModel.ID (Response.State (Create client req resp)) = StringNull)
             = (ComponentResponse.ID component = None)
         \<and> (componentResourceModel.Description (Response.State (Create client req resp))
               = StringNull)
             = (ComponentResponse.Description component = None)
         \<and> (GroupName (Response.State (Create client req resp)) = StringNull)
             = (Group.Name (ComponentResponse.Group component) = None)
         \<and> (componentResourceModel.GroupId (Response.State (Create client req resp))
               = StringNull)
             = (Group.Id (ComponentResponse.Group component) = None)"
proof -
  have null_iff: "(StringPointerValue p = StringNull) = (p = None)" for p
    by (cases p) simp_all
  show ?thesis
    using assms(1) by (simp add: Create_success [OF assms] applyCreateResponse_def null_iff)
qed

theorem Create_response_fields_witness:
  "componentResourceModel.ID (Response.State
     (Create (fixedClient
               \<lparr>ComponentResponse.ID = Some ''cmp_42'', Name = Some ''API'', Description = None,
                 ShowUptime = None, Grouped = None,
                 Group = \<lparr>Group.Name = Some ''Backend'', Id = Some ''grp_9''\<rparr>\<rparr>)
        \<lparr>CreateRequest.Plan = \<lparr>GetDiags = [], Raw = emptyState\<rparr>\<rparr>
        \<lparr>Response.State = emptyState, Diagnostics = []\<rparr>)) \<noteq> StringNull
   \<and> componentResourceModel.Description (Response.State
     (Create (fixedClient
               \<lparr>ComponentResponse.ID = Some ''cmp_42'', Name = Some ''API'', Description = None,
                 ShowUptime = None, Grouped = None,
                 Group = \<lparr>Group.Name = Some ''Backend'', Id = Some ''grp_9''\<rparr>\<rparr>)
        \<lparr>CreateRequest.Plan = \<lparr>GetDiags = [], Raw = emptyState\<rparr>\<rparr>
        \<lparr>Response.State = emptyState, Diagnostics = []\<rparr>)) = StringNull"
proof -
  let ?component = "\<lparr>ComponentResponse.ID = Some ''cmp_42'', Name = Some ''API'',
      Description = None, ShowUptime = None, Grouped = None,
      Group = \<lparr>Group.Name = Some ''Backend'', Id = Some ''grp_9''\<rparr>\<rparr>"
  let ?req = "\<lparr>CreateRequest.Plan = \<lparr>GetDiags = [], Raw = emptyState\<rparr>\<rparr>"
  let ?resp = "\<lparr>Response.State = emptyState, Diagnostics = []\<rparr>"
  have quiet: "\<not> HasError (Append (Diagnostics ?resp) (GetDiags (CreateRequest.Plan ?req)))"
    by (simp add: HasError_def)
  have created: "CreateComponent (fixedClient ?component)
      (ValueString (PageID (Raw (CreateRequest.Plan ?req))))
      (buildCreateRequest (Raw (CreateRequest.Plan ?req))) = Inr ?component"
    by (simp add: fixedClient_def)
  from Create_response_fields [OF quiet created] show ?thesis
    by simp
qed

text \<open>
  Claim C7. A \<^verbatim>\<open>grouped\<close> attribute that the configuration leaves null is planned as
  false, the default of the schema. The response mappings of create and update leave
  \<^verbatim>\<open>grouped\<close> as the plan has it, so they never turn false into true.
\<close>

theorem grouped_default_kept:
  "PlanBool Schema ''grouped'' BoolNull = BoolValue False
   \<and> componentResourceModel.Grouped (applyCreateResponse plan component)
       = componentResourceModel.Grouped plan
   \<and> componentResourceModel.Grouped (applyUpdateResponse plan component)
       = componentResourceModel.Grouped plan"
  by (simp add: PlanBool_def Schema_def applyCreateResponse_def applyUpdateResponse_def)

text \<open>
  Claim C8. For the same remote component, the refresh of read applied to the model
  that the create mapping produced gives the same \<^verbatim>\<open>group_name\<close>, \<^verbatim>\<open>group_id\<close>
  and \<^verbatim>\<open>description\<close> as the create mapping did; the same holds for the refresh of
  any prior state.
\<close>

theorem create_then_read_agree:
  "GroupName (refreshFromRead (applyCreateResponse plan component) component)
     = GroupName (applyCreateResponse plan component)
   \<and> componentResourceModel.GroupId (refreshFromRead (applyCreateResponse plan component) component)
     = componentResourceModel.GroupId (applyCreateResponse plan component)
   \<and> componentResourceModel.Description
       (refreshFromRead (applyCreateResponse plan component) component)
     = componentResourceModel.Description (applyCreateResponse plan component)
   \<and> GroupName (refreshFromRead state component) = GroupName (applyCreateResponse plan component)
   \<and> componentResourceModel.GroupId (refreshFromRead state component)
     = componentResourceModel.GroupId (applyCreateResponse plan component)
   \<and> componentResourceModel.Description (refreshFromRead state component)
     = componentResourceModel.Description (applyCreateResponse plan component)"
  by (simp add: refreshFromRead_def applyCreateResponse_def)

subsection \<open>Errors of the remote calls\<close>

text \<open>
  Claim C9 says that the message of a failed remote call is a fixed prefix for the
  operation followed by the text of the error. For read the detail also holds the id
  of the prior state: two reads that fail with the same error text, for the ids
  \<^verbatim>\<open>cmp_1\<close> and \<^verbatim>\<open>cmp_2\<close>, report details whose parts before the error text differ.
\<close>

theorem Read_error_prefix_counterexample:
  "Diagnostics
     (Read (failingClient ''boom'')
        \<lparr>ReadRequest.State = \<lparr>GetDiags = [],
           Raw = emptyState\<lparr>componentResourceModel.ID := StringValue ''cmp_1''\<rparr>\<rparr>\<rparr>
        \<lparr>Response.State = emptyState, Diagnostics = []\<rparr>)
     = [ErrorDiagnostic ''Error Reading Instatus Component''
          (''Could not read Instatus component ID cmp_1: '' @ ''boom'')]
   \<and> Diagnostics
     (Read (failingClient ''boom'')
        \<lparr>ReadRequest.State = \<lparr>GetDiags = [],
           Raw = emptyState\<lparr>componentResourceModel.ID := StringValue ''cmp_2''\<rparr>\<rparr>\<rparr>
        \<lparr>Response.State = emptyState, Diagnostics = []\<rparr>)
     = [ErrorDiagnostic ''Error Reading Instatus Component''
          (''Could not read Instatus component ID cmp_2: '' @ ''boom'')]
   \<and> ''Could not read Instatus component ID cmp_1: ''
       \<noteq> ''Could not read Instatus component ID cmp_2: ''"
  by (simp add: Read_def Get_def HasError_def AddError_def failingClient_def emptyState_def)

text \<open>
  Claim C9, amended. When an operation reaches the client and the call fails, the
  operation reports an error diagnostic and leaves the state as it was. For create,
  update and delete the detail is a fixed prefix followed by the text of the error;
  for read it is a fixed prefix, the id of the prior state, a colon and a space, and
  then the text of the error.
\<close>

theorem remote_error_surfaced:
  "(\<not> HasError (Append (Diagnostics resp) (GetDiags (CreateRequest.Plan creq)))
     \<and> CreateComponent client (ValueString (PageID (Raw (CreateRequest.Plan creq))))
         (buildCreateRequest (Raw (CreateRequest.Plan creq))) = Inl err
    \<longrightarrow> ErrorDiagnostic ''Error creating component''
          (''Could not create component, unexpected error: '' @ err)
          \<in> set (Diagnostics (Create client creq resp))
        \<and> Diagnostics (Create client creq resp)
          = AddError (Append (Diagnostics resp) (GetDiags (CreateRequest.Plan creq)))
              ''Error creating component''
              (''Could not create component, unexpected error: '' @ err)
        \<and> Response.State (Create client creq resp) = Response.State resp)
   \<and> (\<not> HasError (Append (Diagnostics resp) (GetDiags (ReadRequest.State rreq)))
     \<and> GetComponent client (ValueString (PageID (Raw (ReadRequest.State rreq))))
         (ValueString (componentResourceModel.ID (Raw (ReadRequest.State rreq)))) = Inl err
    \<longrightarrow> ErrorDiagnostic ''Error Reading Instatus Component''
          (''Could not read Instatus component ID ''
             @ ValueString (componentResourceModel.ID (Raw (ReadRequest.State rreq)))
             @ '': '' @ err)
          \<in> set (Diagnostics (Read client rreq resp))
        \<and> Diagnostics (Read client rreq resp)
          = AddError (Append (Diagnostics resp) (GetDiags (ReadRequest.State rreq)))
              ''Error Reading Instatus Component''
              (''Could not read Instatus component ID ''
                 @ ValueString (componentResourceModel.ID (Raw (ReadRequest.State rreq)))
                 @ '': '' @ err)
        \<and> Response.State (Read client rreq resp) = Response.State resp)
   \<and> (\<not> HasError (Append (Diagnostics resp) (GetDiags (UpdateRequest.Plan ureq)))
     \<and> UpdateComponent client (ValueString (PageID (Raw (UpdateRequest.Plan ureq))))
         (ValueString (componentResourceModel.ID (Raw (UpdateRequest.Plan ureq))))
         (buildUpdateRequest (Raw (UpdateRequest.Plan ureq))) = Inl err
    \<longrightarrow> ErrorDiagnostic ''Error Updating Instatus Component''
          (''Could not update component, unexpected error: '' @ err)
          \<in> set (Diagnostics (Update client ureq resp))
        \<and> Diagnostics (Update client ureq resp)
          = AddError (Append (Diagnostics resp) (GetDiags (UpdateRequest.Plan ureq)))
              ''Error Updating Instatus Component''
              (''Could not update component, unexpected error: '' @ err)
        \<and> Response.State (Update client ureq resp) = Response.State resp)
   \<and> (\<not> HasError (Append (Diagnostics resp) (GetDiags (DeleteRequest.State dreq)))
     \<and> DeleteComponent client (ValueString (PageID (Raw (DeleteRequest.State dreq))))
         (ValueString (componentResourceModel.ID (Raw (DeleteRequest.State dreq)))) = Some err
    \<longrightarrow> ErrorDiagnostic ''Error Deleting Instatus Component''
          (''Could not delete component, unexpected error: '' @ err)
          \<in> set (Diagnostics (Delete client dreq resp))
        \<and> Diagnostics (Delete client dreq resp)
          = AddError (Append (Diagnostics resp) (GetDiags (DeleteRequest.State dreq)))
              ''Error Deleting Instatus Component''
              (''Could not delete component, unexpected error: '' @ err)
        \<and> Response.State (Delete client dreq resp) = Response.State resp)"
proof (intro conjI impI; elim conjE)
  assume h: "\<not> HasError (Append (Diagnostics resp) (GetDiags (CreateRequest.Plan creq)))"
    "CreateComponent client (ValueString (PageID (Raw (CreateRequest.Plan creq))))
       (buildCreateRequest (Raw (CreateRequest.Plan creq))) = Inl err"
  note run = Create_failure [OF h]
  show "ErrorDiagnostic ''Error creating component''
      (''Could not create component, unexpected error: '' @ err)
      \<in> set (Diagnostics (Create client creq resp))"
    unfolding run using AddError_member by simp
  show "Diagnostics (Create client creq resp)
      = AddError (Append (Diagnostics resp) (GetDiags (CreateRequest.Plan creq)))
          ''Error creating component''
          (''Could not create component, unexpected error: '' @ err)"
    unfolding run by simp
  show "Response.State (Create client creq resp) = Response.State resp"
    unfolding run by simp
next
  assume h: "\<not> HasError (Append (Diagnostics resp) (GetDiags (ReadRequest.State rreq)))"
    "GetComponent client (ValueString (PageID (Raw (ReadRequest.State rreq))))
       (ValueString (componentResourceModel.ID (Raw (ReadRequest.State rreq)))) = Inl err"
  note run = Read_failure [OF h]
  show "ErrorDiagnostic ''Error Reading Instatus Component''
      (''Could not read Instatus component ID ''
         @ ValueString (componentResourceModel.ID (Raw (ReadRequest.State rreq)))
         @ '': '' @ err)
      \<in> set (Diagnostics (Read client rreq resp))"
    unfolding run using AddError_member by simp
  show "Diagnostics (Read client rreq resp)
      = AddError (Append (Diagnostics resp) (GetDiags (ReadRequest.State rreq)))
          ''Error Reading Instatus Component''
          (''Could not read Instatus component ID ''
             @ ValueString (componentResourceModel.ID (Raw (ReadRequest.State rreq)))
             @ '': '' @ err)"
    unfolding run by simp
  show "Response.State (Read client rreq resp) = Response.State resp"
    unfolding run by simp
next
  assume h: "\<not> HasError (Append (Diagnostics resp) (GetDiags (UpdateRequest.Plan ureq)))"
    "UpdateComponent client (ValueString (PageID (Raw (UpdateRequest.Plan ureq))))
       (ValueString (componentResourceModel.ID (Raw (UpdateRequest.Plan ureq))))
       (buildUpdateRequest (Raw (UpdateRequest.Plan ureq))) = Inl err"
  note run = Update_failure [OF h]
  show "ErrorDiagnostic ''Error Updating Instatus Component''
      (''Could not update component, unexpected error: '' @ err)
      \<in> set (Diagnostics (Update client ureq resp))"
    unfolding run using AddError_member by simp
  show "Diagnostics (Update client ureq resp)
      = AddError (Append (Diagnostics resp) (GetDiags (UpdateRequest.Plan ureq)))
          ''Error Updating Instatus Component''
          (''Could not update component, unexpected error: '' @ err)"
    unfolding run by simp
  show "Response.State (Update client ureq resp) = Response.State resp"
    unfolding run by simp
next
  assume h: "\<not> HasError (Append (Diagnostics resp) (GetDiags (DeleteRequest.State dreq)))"
    "DeleteComponent client (ValueString (PageID (Raw (DeleteRequest.State dreq))))
       (ValueString (componentResourceModel.ID (Raw (DeleteRequest.State dreq)))) = Some err"
  note run = Delete_failure [OF h]
  show "ErrorDiagnostic ''Error Deleting Instatus Component''
      (''Could not delete component, unexpected error: '' @ err)
      \<in> set (Diagnostics (Delete client dreq resp))"
    unfolding run using AddError_member by simp
  show "Diagnostics (Delete client dreq resp)
      = AddError (Append (Diagnostics resp) (GetDiags (DeleteRequest.State dreq)))
          ''Error Deleting Instatus Component''
          (''Could not delete component, unexpected error: '' @ err)"
    unfolding run by simp
  show "Response.State (Delete client dreq resp) = Response.State resp"
    unfolding run by simp
qed

theorem remote_error_surfaced_witness:
  "Diagnostics
     (Create (failingClient ''boom'')
        \<lparr>CreateRequest.Plan = \<lparr>GetDiags = [], Raw = emptyState\<rparr>\<rparr>
        \<lparr>Response.State = emptyState, Diagnostics = []\<rparr>)
     = [ErrorDiagnostic ''Error creating component''
          ''Could not create component, unexpected error: boom'']
   \<and> Diagnostics
     (Read (failingClient ''boom'')
        \<lparr>ReadRequest.State = \<lparr>GetDiags = [],
           Raw = emptyState\<lparr>componentResourceModel.ID := StringValue ''cmp_42''\<rparr>\<rparr>\<rparr>
        \<lparr>Response.State = emptyState, Diagnostics = []\<rparr>)
     = [ErrorDiagnostic ''Error Reading Instatus Component''
          ''Could not read Instatus component ID cmp_42: boom'']
   \<and> Diagnostics
     (Update (failingClient ''boom'')
        \<lparr>UpdateRequest.Plan = \<lparr>GetDiags = [], Raw = emptyState\<rparr>\<rparr>
        \<lparr>Response.State = emptyState, Diagnostics = []\<rparr>)
     = [ErrorDiagnostic ''Error Updating Instatus Component''
          ''Could not update component, unexpected error: boom'']
   \<and> Diagnostics
     (Delete (failingClient ''boom'')
        \<lparr>DeleteRequest.State = \<lparr>GetDiags = [], Raw = emptyState\<rparr>\<rparr>
        \<lparr>Response.State = emptyState, Diagnostics = []\<rparr>)
     = [ErrorDiagnostic ''Error Deleting Instatus Component''
          ''Could not delete component, unexpected error: boom'']
   \<and> Response.State
     (Read (failingClient ''boom'')
        \<lparr>ReadRequest.State = \<lparr>GetDiags = [],
           Raw = emptyState\<lparr>componentResourceModel.ID := StringValue ''cmp_42''\<rparr>\<rparr>\<rparr>
        \<lparr>Response.State = emptyState, Diagnostics = []\<rparr>) = emptyState"
  using remote_error_surfaced
    [where client = "failingClient ''boom''" and err = "''boom''"
       and resp = "\<lparr>Response.State = emptyState, Diagnostics = []\<rparr>"
       and creq = "\<lparr>CreateRequest.Plan = \<lparr>GetDiags = [], Raw = emptyState\<rparr>\<rparr>"
       and rreq = "\<lparr>ReadRequest.State = \<lparr>GetDiags = [],
           Raw = emptyState\<lparr>componentResourceModel.ID := StringValue ''cmp_42''\<rparr>\<rparr>\<rparr>"
       and ureq = "\<lparr>UpdateRequest.Plan = \<lparr>GetDiags = [], Raw = emptyState\<rparr>\<rparr>"
       and dreq = "\<lparr>DeleteRequest.State = \<lparr>GetDiags = [], Raw = emptyState\<rparr>\<rparr>"]
  by (simp add: failingClient_def HasError_def AddError_def)

end
